theory Spec2Isabelle
  imports Main "HOL-Library.Sublist"
begin

section \<open>Python values and dictionaries\<close>

text \<open>
  The values that occur in the tool results of \<^verbatim>\<open>02_fallback_logic.py\<close>: \<^verbatim>\<open>None\<close>,
  booleans, integers, strings and lists. A \<^verbatim>\<open>dict\<close> with string keys is a map.
\<close>

datatype pyval = PNone | PBool bool | PInt int | PStr string | PList "pyval list"

type_synonym pydict = "string \<rightharpoonup> pyval"

text \<open>Python truthiness, as \<^verbatim>\<open>not x\<close> decides it.\<close>

fun truthy :: "pyval \<Rightarrow> bool" where
  "truthy PNone = False"
| "truthy (PBool b) = b"
| "truthy (PInt i) = (i \<noteq> 0)"
| "truthy (PStr s) = (s \<noteq> [])"
| "truthy (PList xs) = (xs \<noteq> [])"

text \<open>\<^verbatim>\<open>d.get(k, default)\<close>; \<^verbatim>\<open>d.get(k)\<close> is \<^verbatim>\<open>d.get(k, None)\<close>.\<close>

definition py_get :: "('k \<rightharpoonup> 'v) \<Rightarrow> 'k \<Rightarrow> 'v \<Rightarrow> 'v" where
  "py_get d k dflt = (case d k of None \<Rightarrow> dflt | Some v \<Rightarrow> v)"

text \<open>\<^verbatim>\<open>str(n)\<close> for an integer, as the f-string of the last line formats it.\<close>

fun str_nat :: "nat \<Rightarrow> string" where
  "str_nat n =
     (if n < 10 then [''0123456789'' ! n]
      else str_nat (n div 10) @ [''0123456789'' ! (n mod 10)])"

definition str_int :: "int \<Rightarrow> string" where
  "str_int i = (if i < 0 then CHR ''-'' # str_nat (nat (- i)) else str_nat (nat i))"

text \<open>\<^verbatim>\<open>range(n)\<close>: the indices \<open>0, ..., n - 1\<close>, none when \<open>n \<le> 0\<close>.\<close>

definition py_range :: "int \<Rightarrow> nat list" where
  "py_range n = [0..<nat n]"

section \<open>The mock backends\<close>

text \<open>
  \<^verbatim>\<open>get_order_status(order_id, simulate_error=None)\<close> and
  \<^verbatim>\<open>check_inventory(product_id, simulate_error=None)\<close>, with their parameters typed as
  the annotations say (\<^verbatim>\<open>str\<close>; \<^verbatim>\<open>None\<close> is the default of \<^verbatim>\<open>simulate_error\<close>).
\<close>

definition orders :: "string \<rightharpoonup> pydict" where
  "orders =
     [''ORD-12345'' \<mapsto>
        [''order_id'' \<mapsto> PStr ''ORD-12345'', ''status'' \<mapsto> PStr ''delivered'',
         ''items'' \<mapsto> PList [PStr ''Blue Widget'']],
      ''ORD-67890'' \<mapsto>
        [''order_id'' \<mapsto> PStr ''ORD-67890'', ''status'' \<mapsto> PStr ''in_transit'',
         ''items'' \<mapsto> PList [PStr ''Green Tool'']]]"

definition get_order_status :: "string \<Rightarrow> string option \<Rightarrow> pydict" where
  "get_order_status order_id simulate_error =
     (if simulate_error = Some ''timeout'' then
        [''error'' \<mapsto> PStr ''timeout'', ''message'' \<mapsto> PStr ''Request timed out'',
         ''retryable'' \<mapsto> PBool True]
      else if simulate_error = Some ''service_unavailable'' then
        [''error'' \<mapsto> PStr ''service_unavailable'',
         ''message'' \<mapsto> PStr ''Service temporarily unavailable'',
         ''retryable'' \<mapsto> PBool True]
      else py_get orders order_id
        [''error'' \<mapsto> PStr ''not_found'',
         ''message'' \<mapsto> PStr (''Order '' @ order_id @ '' not found''),
         ''retryable'' \<mapsto> PBool False])"



section \<open>Operations, effects and the retry loop\<close>

text \<open>
  \<^verbatim>\<open>execute_with_retry(func, args, max_retries)\<close> only forwards \<^verbatim>\<open>args\<close> to
  \<^verbatim>\<open>func(**args)\<close>, so the type of the arguments is left open. A Python callable may keep
  state between calls and may raise: an operation takes the state of the world outside
  the retry loop and returns either the raised exception (\<open>Inl\<close>) or the returned dict
  (\<open>Inr\<close>), with the new state of the world.
\<close>

datatype pyexn = PyExn string

type_synonym ('a, 'w) operation = "'a \<Rightarrow> 'w \<Rightarrow> (pyexn + pydict) \<times> 'w"

text \<open>
  What a run does besides returning: each call of the operation, with its outcome, and
  each \<^verbatim>\<open>time.sleep(wait_time)\<close>, with its argument in seconds, in the order they happen.
  A sleep is taken to return normally once its time has passed. The two \<^verbatim>\<open>print\<close> lines
  before the sleep write to standard output only and are left out.
\<close>

datatype event = Call "pyexn + pydict" | Sleep nat

record 'w run =
  world :: 'w
  trace :: "event list"

definition time_sleep :: "nat \<Rightarrow> 'w run \<Rightarrow> 'w run" where
  "time_sleep secs s = s\<lparr>trace := trace s @ [Sleep secs]\<rparr>"

text \<open>The dict of the last line of \<^verbatim>\<open>execute_with_retry\<close>.\<close>

definition retries_exhausted :: "int \<Rightarrow> pydict" where
  "retries_exhausted max_retries =
     [''error'' \<mapsto> PStr ''max_retries'',
      ''message'' \<mapsto> PStr (''Failed after '' @ str_int max_retries @ '' attempts''),
      ''retryable'' \<mapsto> PBool False]"

text \<open>
  The body of \<^verbatim>\<open>for attempt in range(max_retries)\<close>, by recursion on the indices still to
  run. An exception of \<^verbatim>\<open>func\<close> is not caught and leaves the function. When the indices are
  used up the loop falls through to the final \<^verbatim>\<open>return\<close>.
\<close>

fun retry_loop ::
  "('a, 'w) operation \<Rightarrow> 'a \<Rightarrow> int \<Rightarrow> nat list \<Rightarrow> 'w run \<Rightarrow> (pyexn + pydict) \<times> 'w run"
where
  "retry_loop func args max_retries [] s = (Inr (retries_exhausted max_retries), s)"
| "retry_loop func args max_retries (attempt # rest) s =
     (case func args (world s) of
        (out, w') \<Rightarrow>
          let s1 = s\<lparr>world := w', trace := trace s @ [Call out]\<rparr> in
          (case out of
             Inl e \<Rightarrow> (Inl e, s1)
           | Inr result \<Rightarrow>
               if result ''error'' = None \<or> \<not> truthy (py_get result ''retryable'' PNone)
               then (Inr result, s1)
               else retry_loop func args max_retries rest
                      (if int attempt < max_retries - 1
                       then time_sleep (2 ^ attempt) s1 else s1)))"

definition execute_with_retry ::
  "('a, 'w) operation \<Rightarrow> 'a \<Rightarrow> int \<Rightarrow> 'w run \<Rightarrow> (pyexn + pydict) \<times> 'w run"
where
  "execute_with_retry func args max_retries s =
     retry_loop func args max_retries (py_range max_retries) s"

section \<open>The fallback messages\<close>

definition fallbacks :: "string \<rightharpoonup> string" where
  "fallbacks =
     [''not_found'' \<mapsto> ''I couldn't find that. Please double-check the ID and try again.'',
      ''timeout'' \<mapsto> ''Our system is running slow. Would you like me to try again?'',
      ''rate_limit'' \<mapsto> ''We're experiencing high traffic. Please wait a moment.'',
      ''service_unavailable'' \<mapsto>
        ''Our system is temporarily unavailable. Try again in a few minutes.'',
      ''max_retries'' \<mapsto>
        ''I'm having trouble accessing our systems. Let me connect you with support@globomantics.com'']"

definition get_fallback_response :: "string \<Rightarrow> string" where
  "get_fallback_response error =
     py_get fallbacks error ''I encountered an issue. Please contact support@globomantics.com''"

section \<open>Operations used as concrete inputs\<close>

text \<open>
  A backend of the repository as an operation: the keyword arguments are the pair
  \<open>(id, simulate_error)\<close>; the backends keep no state and raise nothing.
\<close>

definition call_tool ::
  "(string \<Rightarrow> string option \<Rightarrow> pydict) \<Rightarrow> (string \<times> string option, 'w) operation"
where
  "call_tool tool args w = (Inr (tool (fst args) (snd args)), w)"

text \<open>A test double that returns the same dict on every call.\<close>

definition constant_op :: "pydict \<Rightarrow> (unit, 'w) operation" where
  "constant_op result args w = (Inr result, w)"

text \<open>
  A backend that times out on its first two calls and answers from the third on; the
  world is the number of calls made so far.
\<close>

definition flaky_order_status :: "(string, nat) operation" where
  "flaky_order_status order_id n =
     (Inr (get_order_status order_id (if n < 2 then Some ''timeout'' else None)), Suc n)"

text \<open>
  An operation that is itself a retrying call of \<open>get_order_status\<close> (a caller that
  wraps one retry loop in another); the inner run's trace is dropped.
\<close>

definition nested_retry :: "(string \<times> string option, 'w) operation" where
  "nested_retry args w =
     (case execute_with_retry (call_tool get_order_status) args 3 \<lparr>world = w, trace = []\<rparr> of
        (out, s') \<Rightarrow> (out, world s'))"


section \<open>Classifying results\<close>

text \<open>
  The test of the loop body, split in its two parts: a dict is an error when it has
  the key \<^verbatim>\<open>"error"\<close>, and a retryable one when \<^verbatim>\<open>result.get("retryable")\<close> is truthy too.
\<close>

definition is_error :: "pydict \<Rightarrow> bool" where
  "is_error result = (result ''error'' \<noteq> None)"

definition retryable_failure :: "pydict \<Rightarrow> bool" where
  "retryable_failure result =
     (is_error result \<and> truthy (py_get result ''retryable'' PNone))"

text \<open>The outcomes of the calls in a trace, and the sleeps of a trace, in order.\<close>

fun calls_of :: "event list \<Rightarrow> (pyexn + pydict) list" where
  "calls_of [] = []"
| "calls_of (Call out # es) = out # calls_of es"
| "calls_of (Sleep n # es) = calls_of es"


text \<open>
  What the proofs below keep of a finished run of the loop over \<open>n\<close> indices that
  returned \<open>out\<close> after the events \<open>ev\<close>: at most \<open>n\<close> calls; a call whose
  result is not a retryable failure is the last event and its result is returned; and
  the returned value is either the dict of the final \<open>return\<close>, after calls that all
  gave retryable failures, or the outcome of the last call, which is then not a
  retryable failure.
\<close>

definition run_ok :: "int \<Rightarrow> nat \<Rightarrow> (pyexn + pydict) \<Rightarrow> event list \<Rightarrow> bool" where
  "run_ok max_retries n out ev =
     (length (calls_of ev) \<le> n
      \<and> (\<forall>pre r post. ev = pre @ Call (Inr r) # post \<longrightarrow> \<not> retryable_failure r \<longrightarrow>
            post = [] \<and> out = Inr r)
      \<and> ((out = Inr (retries_exhausted max_retries)
           \<and> (\<forall>c \<in> set (calls_of ev). \<exists>r. c = Inr r \<and> retryable_failure r))
          \<or> (calls_of ev \<noteq> [] \<and> last (calls_of ev) = out
              \<and> (\<forall>r. out = Inr r \<longrightarrow> \<not> retryable_failure r))))"

section \<open>Facts about the loop\<close>

text \<open>One iteration of the loop body, by the outcome of the call.\<close>

lemma retry_step:
  assumes "func args (world s) = (Inr r, w')" and "retryable_failure r"
  shows "retry_loop func args max_retries (attempt # rest) s =
     retry_loop func args max_retries rest
       (if int attempt < max_retries - 1
        then time_sleep (2 ^ attempt) (s\<lparr>world := w', trace := trace s @ [Call (Inr r)]\<rparr>)
        else s\<lparr>world := w', trace := trace s @ [Call (Inr r)]\<rparr>)"
  using assms by (auto simp add: retryable_failure_def is_error_def Let_def)

lemma return_step:
  assumes "func args (world s) = (Inr r, w')" and "\<not> retryable_failure r"
  shows "retry_loop func args max_retries (attempt # rest) s =
     (Inr r, s\<lparr>world := w', trace := trace s @ [Call (Inr r)]\<rparr>)"
  using assms by (auto simp add: retryable_failure_def is_error_def Let_def)

lemma raise_step:
  assumes "func args (world s) = (Inl e, w')"
  shows "retry_loop func args max_retries (attempt # rest) s =
     (Inl e, s\<lparr>world := w', trace := trace s @ [Call (Inl e)]\<rparr>)"
  using assms by (simp add: Let_def)

text \<open>The indices of the loop.\<close>

lemma py_range_3: "py_range 3 = [0, 1, 2]"
  by (simp add: py_range_def upt_rec)


lemma py_range_nonpos: "n \<le> 0 \<Longrightarrow> py_range n = []"
  by (simp add: py_range_def)

lemma py_range_pos: "1 \<le> n \<Longrightarrow> py_range n = 0 # [1..<nat n]"
  by (simp add: py_range_def upt_conv_Cons)

text \<open>Calls and sleeps of a trace put together from two.\<close>

lemma calls_of_append: "calls_of (xs @ ys) = calls_of xs @ calls_of ys"
  by (induction xs rule: calls_of.induct) simp_all


text \<open>The dict of the final \<^verbatim>\<open>return\<close> is not a retryable failure.\<close>

lemma retries_exhausted_not_retryable: "\<not> retryable_failure (retries_exhausted n)"
  by (simp add: retryable_failure_def retries_exhausted_def py_get_def)

text \<open>Results of \<open>get_order_status\<close> used as concrete inputs.\<close>

lemma order_12345: "get_order_status ''ORD-12345'' None =
    [''order_id'' \<mapsto> PStr ''ORD-12345'', ''status'' \<mapsto> PStr ''delivered'',
     ''items'' \<mapsto> PList [PStr ''Blue Widget'']]"
  by (simp add: get_order_status_def orders_def py_get_def)

lemma order_99999: "get_order_status ''ORD-99999'' None =
    [''error'' \<mapsto> PStr ''not_found'', ''message'' \<mapsto> PStr ''Order ORD-99999 not found'',
     ''retryable'' \<mapsto> PBool False]"
  by (simp add: get_order_status_def orders_def py_get_def)

lemma order_timeout: "get_order_status order_id (Some ''timeout'') =
    [''error'' \<mapsto> PStr ''timeout'', ''message'' \<mapsto> PStr ''Request timed out'',
     ''retryable'' \<mapsto> PBool True]"
  by (simp add: get_order_status_def)


text \<open>Every run of the loop extends the trace by events that satisfy \<open>run_ok\<close>.\<close>

lemma run_ok_single:
  assumes "\<And>r. out = Inr r \<Longrightarrow> \<not> retryable_failure r"
  shows "run_ok max_retries (Suc n) out [Call out]"
  using assms by (auto simp: run_ok_def Cons_eq_append_conv)

lemma run_ok_retry:
  assumes "run_ok max_retries n out ev" and "retryable_failure r"
    and "pre = [] \<or> pre = [Sleep k]"
  shows "run_ok max_retries (Suc n) out (Call (Inr r) # pre @ ev)"
proof -
  have a: "length (calls_of (Call (Inr r) # pre @ ev)) \<le> Suc n"
    using assms by (auto simp: run_ok_def calls_of_append)
  have b: "post = [] \<and> out = Inr r'"
    if "Call (Inr r) # pre @ ev = p @ Call (Inr r') # post" "\<not> retryable_failure r'"
    for p r' post
  proof -
    from that assms(2) obtain p' where "pre @ ev = p' @ Call (Inr r') # post"
      by (cases p) auto
    with assms(3) obtain p'' where "ev = p'' @ Call (Inr r') # post"
      by (cases p') auto
    with assms(1) that(2) show ?thesis by (auto simp: run_ok_def)
  qed
  have c: "(out = Inr (retries_exhausted max_retries)
           \<and> (\<forall>c \<in> set (calls_of (Call (Inr r) # pre @ ev)). \<exists>r. c = Inr r \<and> retryable_failure r))
          \<or> (calls_of (Call (Inr r) # pre @ ev) \<noteq> [] \<and> last (calls_of (Call (Inr r) # pre @ ev)) = out
              \<and> (\<forall>r. out = Inr r \<longrightarrow> \<not> retryable_failure r))"
    using assms by (auto simp: run_ok_def calls_of_append)
  show ?thesis unfolding run_ok_def using a b c by blast
qed

lemma retry_loop_run:
  "\<exists>ev. trace (snd (retry_loop func args max_retries xs s)) = trace s @ ev
      \<and> run_ok max_retries (length xs) (fst (retry_loop func args max_retries xs s)) ev"
proof (induction xs arbitrary: s)
  case Nil
  have "run_ok max_retries 0 (Inr (retries_exhausted max_retries)) []"
    by (simp add: run_ok_def)
  then show ?case by simp
next
  case (Cons attempt rest)
  obtain out w1 where c: "func args (world s) = (out, w1)"
    by (cases "func args (world s)")
  define s1 where "s1 = s\<lparr>world := w1, trace := trace s @ [Call out]\<rparr>"
  show ?case
  proof (cases out)
    case (Inl e)
    then have "retry_loop func args max_retries (attempt # rest) s = (out, s1)"
      using c by (simp add: raise_step s1_def)
    moreover have "run_ok max_retries (Suc (length rest)) out [Call out]"
      using Inl by (intro run_ok_single) simp
    ultimately show ?thesis by (simp add: s1_def)
  next
    case (Inr r)
    show ?thesis
    proof (cases "retryable_failure r")
      case False
      then have "retry_loop func args max_retries (attempt # rest) s = (out, s1)"
        using c Inr by (simp add: return_step s1_def del: retry_loop.simps)
      moreover have "run_ok max_retries (Suc (length rest)) out [Call out]"
        using Inr False by (intro run_ok_single) simp
      ultimately show ?thesis by (simp add: s1_def)
    next
      case True
      define pre where
        "pre = (if int attempt < max_retries - 1 then [Sleep (2 ^ attempt)] else [])"
      define s2 where
        "s2 = (if int attempt < max_retries - 1 then time_sleep (2 ^ attempt) s1 else s1)"
      have t2: "trace s2 = trace s @ Call (Inr r) # pre"
        by (simp add: s2_def s1_def pre_def time_sleep_def Inr)
      have step: "retry_loop func args max_retries (attempt # rest) s =
          retry_loop func args max_retries rest s2"
        unfolding s2_def s1_def Inr using c [unfolded Inr] True by (rule retry_step)
      obtain ev where
        tr: "trace (snd (retry_loop func args max_retries rest s2)) = trace s2 @ ev"
        and ok: "run_ok max_retries (length rest)
                   (fst (retry_loop func args max_retries rest s2)) ev"
        using Cons.IH [of s2] by blast
      have "pre = [] \<or> pre = [Sleep (2 ^ attempt)]"
        by (simp add: pre_def)
      with ok True have "run_ok max_retries (Suc (length rest))
          (fst (retry_loop func args max_retries rest s2)) (Call (Inr r) # pre @ ev)"
        by (rule run_ok_retry)
      moreover have "trace (snd (retry_loop func args max_retries rest s2)) =
          trace s @ (Call (Inr r) # pre @ ev)"
        using tr t2 by simp
      ultimately show ?thesis unfolding step by auto
    qed
  qed
qed

text \<open>The loop never returns a retryable failure.\<close>

lemma never_returns_retryable:
  "fst (retry_loop func args max_retries xs s) = Inr r \<Longrightarrow> \<not> retryable_failure r"
  using retry_loop_run [of func args max_retries xs s] retries_exhausted_not_retryable
  by (auto simp: run_ok_def)

section \<open>The retry loop and the fallback resolver: the claims\<close>





text \<open>
  C3, as stated, does not hold: with \<open>max_retries = 0\<close> the function does not fail
  with \<open>invalid_configuration\<close>; it returns the failure with code \<open>max_retries\<close>.
\<close>

theorem zero_budget_returns_max_retries:
  "execute_with_retry (call_tool get_order_status) (''ORD-12345'', None) 0
      \<lparr>world = (), trace = []\<rparr> =
     (Inr [''error'' \<mapsto> PStr ''max_retries'',
           ''message'' \<mapsto> PStr ''Failed after 0 attempts'',
           ''retryable'' \<mapsto> PBool False],
      \<lparr>world = (), trace = []\<rparr>)
   \<and> [''error'' \<mapsto> PStr ''max_retries'',
       ''message'' \<mapsto> PStr ''Failed after 0 attempts'',
       ''retryable'' \<mapsto> PBool False] ''error'' \<noteq> Some (PStr ''invalid_configuration'')"
  by (simp add: execute_with_retry_def py_range_def retries_exhausted_def str_int_def)

text \<open>
  C3, amended. With \<open>max_retries\<close> below 1 no attempt is made and no delay is
  incurred (the world and the trace are unchanged), nothing is raised, and the returned
  failure has code \<open>max_retries\<close>, not \<open>invalid_configuration\<close>, with
  \<open>retryable = False\<close>.
\<close>

theorem no_attempt_below_one:
  assumes "max_retries < 1"
  shows "\<exists>d. execute_with_retry func args max_retries s = (Inr d, s)
    \<and> d ''error'' = Some (PStr ''max_retries'')
    \<and> d ''error'' \<noteq> Some (PStr ''invalid_configuration'')
    \<and> d ''retryable'' = Some (PBool False)"
  using assms
  by (simp add: execute_with_retry_def py_range_nonpos retries_exhausted_def)

text \<open>At \<open>max_retries = 0\<close>.\<close>

theorem no_attempt_below_one_witness:
  "(0::int) < 1
   \<and> (\<exists>d. execute_with_retry (call_tool get_order_status) (''ORD-12345'', None) 0
             \<lparr>world = (), trace = []\<rparr> = (Inr d, \<lparr>world = (), trace = []\<rparr>)
          \<and> d ''error'' = Some (PStr ''max_retries'')
          \<and> d ''error'' \<noteq> Some (PStr ''invalid_configuration'')
          \<and> d ''retryable'' = Some (PBool False))"
proof -
  have h: "(0::int) < 1" by simp
  show ?thesis
    using h no_attempt_below_one [OF h, of "call_tool get_order_status"
        "(''ORD-12345'', None)" "\<lparr>world = (), trace = []\<rparr>"]
    by simp
qed




text \<open>
  C5. For every operation and arguments, when the first attempt (there is one exactly
  when \<open>max_retries \<ge> 1\<close>) returns a dict without the key \<open>error\<close>, or a dict with
  \<open>retryable = False\<close>, that dict is returned unchanged after exactly one call and no
  sleep.
\<close>

theorem first_result_returned:
  assumes "1 \<le> max_retries"
    and "func args (world s) = (Inr r, w')"
    and "r ''error'' = None \<or> r ''retryable'' = Some (PBool False)"
  shows "execute_with_retry func args max_retries s =
    (Inr r, \<lparr>world = w', trace = trace s @ [Call (Inr r)]\<rparr>)"
proof -
  have "\<not> retryable_failure r"
    using assms(3) by (auto simp: retryable_failure_def is_error_def py_get_def)
  with assms(2) show ?thesis
    by (simp add: execute_with_retry_def py_range_pos [OF assms(1)] return_step
        del: retry_loop.simps(2))
qed

text \<open>At a delivered order (a success) and at an unknown order (\<open>not_found\<close>).\<close>

theorem first_result_returned_witness:
  "(1::int) \<le> 3
   \<and> call_tool get_order_status (''ORD-12345'', None) () =
       (Inr [''order_id'' \<mapsto> PStr ''ORD-12345'', ''status'' \<mapsto> PStr ''delivered'',
             ''items'' \<mapsto> PList [PStr ''Blue Widget'']], ())
   \<and> execute_with_retry (call_tool get_order_status) (''ORD-12345'', None) 3
        \<lparr>world = (), trace = []\<rparr> =
      (Inr [''order_id'' \<mapsto> PStr ''ORD-12345'', ''status'' \<mapsto> PStr ''delivered'',
            ''items'' \<mapsto> PList [PStr ''Blue Widget'']],
       \<lparr>world = (),
          trace = [Call (Inr [''order_id'' \<mapsto> PStr ''ORD-12345'',
                              ''status'' \<mapsto> PStr ''delivered'',
                              ''items'' \<mapsto> PList [PStr ''Blue Widget'']])]\<rparr>)
   \<and> call_tool get_order_status (''ORD-99999'', None) () =
       (Inr [''error'' \<mapsto> PStr ''not_found'',
             ''message'' \<mapsto> PStr ''Order ORD-99999 not found'',
             ''retryable'' \<mapsto> PBool False], ())
   \<and> execute_with_retry (call_tool get_order_status) (''ORD-99999'', None) 3
        \<lparr>world = (), trace = []\<rparr> =
      (Inr [''error'' \<mapsto> PStr ''not_found'',
            ''message'' \<mapsto> PStr ''Order ORD-99999 not found'',
            ''retryable'' \<mapsto> PBool False],
       \<lparr>world = (),
          trace = [Call (Inr [''error'' \<mapsto> PStr ''not_found'',
                              ''message'' \<mapsto> PStr ''Order ORD-99999 not found'',
                              ''retryable'' \<mapsto> PBool False])]\<rparr>)"
proof -
  let ?found = "[''order_id'' \<mapsto> PStr ''ORD-12345'', ''status'' \<mapsto> PStr ''delivered'',
                 ''items'' \<mapsto> PList [PStr ''Blue Widget'']]"
  let ?missing = "[''error'' \<mapsto> PStr ''not_found'',
                   ''message'' \<mapsto> PStr ''Order ORD-99999 not found'',
                   ''retryable'' \<mapsto> PBool False]"
  let ?s = "\<lparr>world = (), trace = []\<rparr> :: unit run"
  have b: "(1::int) \<le> 3" by simp
  have c1: "call_tool get_order_status (''ORD-12345'', None) (world ?s) = (Inr ?found, ())"
    by (simp add: call_tool_def order_12345)
  have ok: "?found ''error'' = None \<or> ?found ''retryable'' = Some (PBool False)"
    by simp
  have c2: "call_tool get_order_status (''ORD-99999'', None) (world ?s) = (Inr ?missing, ())"
    by (simp add: call_tool_def order_99999)
  have nf: "?missing ''error'' = None \<or> ?missing ''retryable'' = Some (PBool False)"
    by simp
  have r1: "execute_with_retry (call_tool get_order_status) (''ORD-12345'', None) 3 ?s =
      (Inr ?found, \<lparr>world = (), trace = trace ?s @ [Call (Inr ?found)]\<rparr>)"
    using b c1 ok by (rule first_result_returned)
  have r2: "execute_with_retry (call_tool get_order_status) (''ORD-99999'', None) 3 ?s =
      (Inr ?missing, \<lparr>world = (), trace = trace ?s @ [Call (Inr ?missing)]\<rparr>)"
    using b c2 nf by (rule first_result_returned)
  have w: "world ?s = ()" and t: "trace ?s @ es = es" for es
    by simp_all
  show ?thesis
    using b c1 [unfolded w] r1 [unfolded t] c2 [unfolded w] r2 [unfolded t]
    by (intro conjI)
qed

text \<open>
  C6. When the operation returns a retryable failure on attempts 0 and 1 and a success
  on attempt 2, the run with \<open>max_retries = 3\<close> returns that success after exactly three
  calls and exactly two sleeps, of 1 and of 2 seconds.
\<close>

theorem third_attempt_succeeds:
  assumes "func args (world s) = (Inr r0, w1)" and "retryable_failure r0"
    and "func args w1 = (Inr r1, w2)" and "retryable_failure r1"
    and "func args w2 = (Inr r2, w3)" and "r2 ''error'' = None"
  shows "execute_with_retry func args 3 s =
    (Inr r2, \<lparr>world = w3,
       trace = trace s @ [Call (Inr r0), Sleep 1, Call (Inr r1), Sleep 2, Call (Inr r2)]\<rparr>)"
proof -
  have "\<not> retryable_failure r2"
    using assms(6) by (simp add: retryable_failure_def is_error_def)
  with assms show ?thesis
    by (simp add: execute_with_retry_def py_range_3 retry_step return_step time_sleep_def
        del: retry_loop.simps(2))
qed

text \<open>At the backend that times out twice.\<close>

theorem third_attempt_succeeds_witness:
  "flaky_order_status ''ORD-12345'' 0 =
     (Inr [''error'' \<mapsto> PStr ''timeout'', ''message'' \<mapsto> PStr ''Request timed out'',
           ''retryable'' \<mapsto> PBool True], 1)
   \<and> flaky_order_status ''ORD-12345'' 1 =
     (Inr [''error'' \<mapsto> PStr ''timeout'', ''message'' \<mapsto> PStr ''Request timed out'',
           ''retryable'' \<mapsto> PBool True], 2)
   \<and> flaky_order_status ''ORD-12345'' 2 =
     (Inr [''order_id'' \<mapsto> PStr ''ORD-12345'', ''status'' \<mapsto> PStr ''delivered'',
           ''items'' \<mapsto> PList [PStr ''Blue Widget'']], 3)
   \<and> execute_with_retry flaky_order_status ''ORD-12345'' 3 \<lparr>world = 0, trace = []\<rparr> =
      (Inr [''order_id'' \<mapsto> PStr ''ORD-12345'', ''status'' \<mapsto> PStr ''delivered'',
            ''items'' \<mapsto> PList [PStr ''Blue Widget'']],
       \<lparr>world = 3,
          trace = [Call (Inr [''error'' \<mapsto> PStr ''timeout'',
                              ''message'' \<mapsto> PStr ''Request timed out'',
                              ''retryable'' \<mapsto> PBool True]),
                   Sleep 1,
                   Call (Inr [''error'' \<mapsto> PStr ''timeout'',
                              ''message'' \<mapsto> PStr ''Request timed out'',
                              ''retryable'' \<mapsto> PBool True]),
                   Sleep 2,
                   Call (Inr [''order_id'' \<mapsto> PStr ''ORD-12345'',
                              ''status'' \<mapsto> PStr ''delivered'',
                              ''items'' \<mapsto> PList [PStr ''Blue Widget'']])]\<rparr>)"
proof -
  let ?timeout = "[''error'' \<mapsto> PStr ''timeout'', ''message'' \<mapsto> PStr ''Request timed out'',
                   ''retryable'' \<mapsto> PBool True]"
  let ?found = "[''order_id'' \<mapsto> PStr ''ORD-12345'', ''status'' \<mapsto> PStr ''delivered'',
                 ''items'' \<mapsto> PList [PStr ''Blue Widget'']]"
  let ?s = "\<lparr>world = 0, trace = []\<rparr> :: nat run"
  have c0: "flaky_order_status ''ORD-12345'' (world ?s) = (Inr ?timeout, 1)"
    and c1: "flaky_order_status ''ORD-12345'' 1 = (Inr ?timeout, 2)"
    and c2: "flaky_order_status ''ORD-12345'' 2 = (Inr ?found, 3)"
    by (simp_all add: flaky_order_status_def order_timeout order_12345)
  have f: "retryable_failure ?timeout"
    by (simp add: retryable_failure_def is_error_def py_get_def)
  have ok: "?found ''error'' = None"
    by simp
  have r: "execute_with_retry flaky_order_status ''ORD-12345'' 3 ?s =
      (Inr ?found,
       \<lparr>world = 3,
          trace = trace ?s @ [Call (Inr ?timeout), Sleep 1, Call (Inr ?timeout), Sleep 2,
                             Call (Inr ?found)]\<rparr>)"
    using c0 f c1 f c2 ok by (rule third_attempt_succeeds)
  have w: "world ?s = 0" and t: "trace ?s @ es = es" for es
    by simp_all
  show ?thesis
    using c0 [unfolded w] c1 c2 r [unfolded t]
    by (intro conjI)
qed

text \<open>
  C7. \<open>get_fallback_response\<close> is a function of the code alone, defined on every
  string: each of the five recognised codes has its own text (the five texts and the
  generic one are pairwise different), every other string gets the one generic text,
  which ends with the support contact, and equal codes give equal texts.
\<close>

theorem get_fallback_response_total:
  "get_fallback_response ''not_found'' =
     ''I couldn't find that. Please double-check the ID and try again.''
   \<and> get_fallback_response ''timeout'' =
     ''Our system is running slow. Would you like me to try again?''
   \<and> get_fallback_response ''rate_limit'' =
     ''We're experiencing high traffic. Please wait a moment.''
   \<and> get_fallback_response ''service_unavailable'' =
     ''Our system is temporarily unavailable. Try again in a few minutes.''
   \<and> get_fallback_response ''max_retries'' =
     ''I'm having trouble accessing our systems. Let me connect you with support@globomantics.com''
   \<and> distinct [get_fallback_response ''not_found'', get_fallback_response ''timeout'',
        get_fallback_response ''rate_limit'', get_fallback_response ''service_unavailable'',
        get_fallback_response ''max_retries'', get_fallback_response ''anything else'']
   \<and> (error \<notin> {''not_found'', ''timeout'', ''rate_limit'', ''service_unavailable'',
          ''max_retries''} \<longrightarrow>
        get_fallback_response error =
          ''I encountered an issue. Please contact support@globomantics.com'')
   \<and> suffix ''support@globomantics.com''
        (''I encountered an issue. Please contact support@globomantics.com'')
   \<and> (error = error' \<longrightarrow> get_fallback_response error = get_fallback_response error')"
  by (simp add: get_fallback_response_def fallbacks_def py_get_def suffix_def)

text \<open>At the unrecognised code \<open>refund_denied\<close>.\<close>

theorem get_fallback_response_total_witness:
  "''refund_denied'' \<notin> {''not_found'', ''timeout'', ''rate_limit'', ''service_unavailable'',
      ''max_retries''}
   \<and> get_fallback_response ''refund_denied'' =
       ''I encountered an issue. Please contact support@globomantics.com''
   \<and> get_fallback_response ''timeout'' =
       ''Our system is running slow. Would you like me to try again?''"
  using get_fallback_response_total [of "''refund_denied''" "''refund_denied''"]
  by simp

text \<open>
  C8, as stated, does not hold in its last part: an operation may itself return a
  non-retryable failure with code \<open>max_retries\<close> (here, a retry loop wrapped in another),
  and that dict is returned after one attempt that did not yield a retryable failure.
\<close>

theorem max_retries_code_passed_through:
  "execute_with_retry nested_retry (''ORD-67890'', Some ''timeout'') 3
      \<lparr>world = (), trace = []\<rparr> =
     (Inr [''error'' \<mapsto> PStr ''max_retries'',
           ''message'' \<mapsto> PStr ''Failed after 3 attempts'',
           ''retryable'' \<mapsto> PBool False],
      \<lparr>world = (),
         trace = [Call (Inr [''error'' \<mapsto> PStr ''max_retries'',
                             ''message'' \<mapsto> PStr ''Failed after 3 attempts'',
                             ''retryable'' \<mapsto> PBool False])]\<rparr>)
   \<and> \<not> retryable_failure [''error'' \<mapsto> PStr ''max_retries'',
                            ''message'' \<mapsto> PStr ''Failed after 3 attempts'',
                            ''retryable'' \<mapsto> PBool False]"
  by (simp add: execute_with_retry_def py_range_3 nested_retry_def call_tool_def
      get_order_status_def py_get_def Let_def time_sleep_def retries_exhausted_def str_int_def
      retryable_failure_def)

text \<open>
  C8, amended. In every run, for every operation and every \<open>max_retries\<close>: the
  number of calls never exceeds the configured maximum (and is zero when it is not
  positive); a call that yields a failure with a falsy \<open>retryable\<close> is the last event of
  the run (no sleep and no call follow) and its result is returned; and a result with code
  \<open>max_retries\<close> is returned only when every attempt yielded a retryable failure, or when
  it is the operation's own last result, a non-retryable one passed through unchanged.
\<close>

theorem retry_invariants:
  "\<exists>ev. trace (snd (execute_with_retry func args max_retries s)) = trace s @ ev
     \<and> length (calls_of ev) \<le> nat max_retries
     \<and> (\<forall>pre r post. ev = pre @ Call (Inr r) # post \<longrightarrow> is_error r \<longrightarrow>
            \<not> truthy (py_get r ''retryable'' PNone) \<longrightarrow>
            post = [] \<and> fst (execute_with_retry func args max_retries s) = Inr r)
     \<and> (\<forall>d. fst (execute_with_retry func args max_retries s) = Inr d \<longrightarrow>
            d ''error'' = Some (PStr ''max_retries'') \<longrightarrow>
            (\<forall>c \<in> set (calls_of ev). \<exists>r. c = Inr r \<and> retryable_failure r)
            \<or> (calls_of ev \<noteq> [] \<and> last (calls_of ev) = Inr d \<and> \<not> retryable_failure d))"
proof -
  obtain ev where
    tr: "trace (snd (execute_with_retry func args max_retries s)) = trace s @ ev"
    and ok: "run_ok max_retries (length (py_range max_retries))
               (fst (execute_with_retry func args max_retries s)) ev"
    using retry_loop_run [of func args max_retries "py_range max_retries" s]
    by (auto simp: execute_with_retry_def)
  have 1: "length (calls_of ev) \<le> nat max_retries"
    using ok by (simp add: run_ok_def py_range_def)
  have 2: "post = [] \<and> fst (execute_with_retry func args max_retries s) = Inr r"
    if "ev = pre @ Call (Inr r) # post" "is_error r" "\<not> truthy (py_get r ''retryable'' PNone)"
    for pre r post
  proof -
    have "\<not> retryable_failure r" using that(3) by (simp add: retryable_failure_def)
    with ok that(1) show ?thesis unfolding run_ok_def by blast
  qed
  have 3: "(\<forall>c \<in> set (calls_of ev). \<exists>r. c = Inr r \<and> retryable_failure r)
            \<or> (calls_of ev \<noteq> [] \<and> last (calls_of ev) = Inr d \<and> \<not> retryable_failure d)"
    if "fst (execute_with_retry func args max_retries s) = Inr d" for d
    using ok that unfolding run_ok_def by auto
  show ?thesis using tr 1 2 3 by blast
qed

text \<open>At the wrapped retry loop, whose one call yields the non-retryable \<open>max_retries\<close>.\<close>

theorem retry_invariants_witness:
  "is_error (retries_exhausted 3)
   \<and> \<not> truthy (py_get (retries_exhausted 3) ''retryable'' PNone)
   \<and> retries_exhausted 3 ''error'' = Some (PStr ''max_retries'')
   \<and> execute_with_retry nested_retry (''ORD-67890'', Some ''timeout'') 3
        \<lparr>world = (), trace = []\<rparr> =
      (Inr (retries_exhausted 3),
       \<lparr>world = (), trace = [] @ Call (Inr (retries_exhausted 3)) # []\<rparr>)
   \<and> length (calls_of [Call (Inr (retries_exhausted 3))]) \<le> nat 3
   \<and> last (calls_of [Call (Inr (retries_exhausted 3))]) = Inr (retries_exhausted 3)
   \<and> \<not> retryable_failure (retries_exhausted 3)"
proof -
  let ?s = "\<lparr>world = (), trace = []\<rparr> :: unit run"
  let ?run = "execute_with_retry nested_retry (''ORD-67890'', Some ''timeout'') 3 ?s"
  have run: "?run = (Inr (retries_exhausted 3),
      \<lparr>world = (), trace = [] @ Call (Inr (retries_exhausted 3)) # []\<rparr>)"
    by (simp add: execute_with_retry_def py_range_3 nested_retry_def call_tool_def
      get_order_status_def py_get_def Let_def time_sleep_def retries_exhausted_def)
  have e: "is_error (retries_exhausted 3)"
    and f: "\<not> truthy (py_get (retries_exhausted 3) ''retryable'' PNone)"
    and c: "retries_exhausted 3 ''error'' = Some (PStr ''max_retries'')"
    by (simp_all add: retries_exhausted_def is_error_def py_get_def)
  obtain ev where tr: "trace (snd ?run) = trace ?s @ ev"
    and n: "length (calls_of ev) \<le> nat 3"
    and code: "\<forall>d. fst ?run = Inr d \<longrightarrow> d ''error'' = Some (PStr ''max_retries'') \<longrightarrow>
            (\<forall>c \<in> set (calls_of ev). \<exists>r. c = Inr r \<and> retryable_failure r)
            \<or> (calls_of ev \<noteq> [] \<and> last (calls_of ev) = Inr d \<and> \<not> retryable_failure d)"
    using retry_invariants [of nested_retry "(''ORD-67890'', Some ''timeout'')" 3 ?s]
    by blast
  have ev: "ev = [Call (Inr (retries_exhausted 3))]"
    using tr by (simp add: run)
  have "fst ?run = Inr (retries_exhausted 3)"
    by (simp add: run)
  with code c have
    "(\<forall>c \<in> set (calls_of ev). \<exists>r. c = Inr r \<and> retryable_failure r)
     \<or> (calls_of ev \<noteq> [] \<and> last (calls_of ev) = Inr (retries_exhausted 3)
         \<and> \<not> retryable_failure (retries_exhausted 3))"
    by blast
  moreover have "\<not> retryable_failure (retries_exhausted 3)"
    using f by (simp add: retryable_failure_def)
  ultimately have l: "last (calls_of [Call (Inr (retries_exhausted 3))]) =
      Inr (retries_exhausted 3)"
    and nr: "\<not> retryable_failure (retries_exhausted 3)"
    unfolding ev by auto
  show ?thesis
    using e f c run n [unfolded ev] l nr by (intro conjI)
qed

text \<open>
  C9. When there is a first attempt (\<open>max_retries \<ge> 1\<close>) and it returns a dict with
  the key \<open>error\<close> whose \<open>retryable\<close> is absent or falsy, the dict is returned unchanged
  after that one call with no sleep, as for \<open>retryable = False\<close>. Success is the absence of
  the key \<open>error\<close> and nothing else: a dict without it is returned at once whatever its
  other fields; a dict with it and a truthy \<open>retryable\<close> is never the result.
\<close>

theorem falsy_retryable_is_final:
  assumes "1 \<le> max_retries" and "func args (world s) = (Inr r, w')"
  shows "(is_error r \<and> (r ''retryable'' = None \<or> (\<exists>v. r ''retryable'' = Some v \<and> \<not> truthy v))
          \<longrightarrow> execute_with_retry func args max_retries s =
                (Inr r, \<lparr>world = w', trace = trace s @ [Call (Inr r)]\<rparr>))
       \<and> (r ''error'' = None
          \<longrightarrow> execute_with_retry func args max_retries s =
                (Inr r, \<lparr>world = w', trace = trace s @ [Call (Inr r)]\<rparr>))
       \<and> (is_error r \<and> truthy (py_get r ''retryable'' PNone)
          \<longrightarrow> fst (execute_with_retry func args max_retries s) \<noteq> Inr r)"
proof -
  have final: "execute_with_retry func args max_retries s =
      (Inr r, \<lparr>world = w', trace = trace s @ [Call (Inr r)]\<rparr>)"
    if "\<not> retryable_failure r"
    using that assms(2)
    by (simp add: execute_with_retry_def py_range_pos [OF assms(1)] return_step
        del: retry_loop.simps(2))
  have a: "\<not> retryable_failure r"
    if "r ''retryable'' = None \<or> (\<exists>v. r ''retryable'' = Some v \<and> \<not> truthy v)"
    using that by (auto simp: retryable_failure_def py_get_def)
  have b: "\<not> retryable_failure r" if "r ''error'' = None"
    using that by (simp add: retryable_failure_def is_error_def)
  have c: "fst (execute_with_retry func args max_retries s) \<noteq> Inr r"
    if "is_error r \<and> truthy (py_get r ''retryable'' PNone)"
    using that never_returns_retryable [of func args max_retries "py_range max_retries" s r]
    by (auto simp: execute_with_retry_def retryable_failure_def)
  show ?thesis using final a b c by blast
qed

text \<open>At an error dict without \<open>retryable\<close>, at one with \<open>retryable = 0\<close>, and at a timeout.\<close>

theorem falsy_retryable_is_final_witness:
  "(1::int) \<le> 3
   \<and> is_error [''error'' \<mapsto> PStr ''bad_request'']
   \<and> [''error'' \<mapsto> PStr ''bad_request''] ''retryable'' = None
   \<and> execute_with_retry (constant_op [''error'' \<mapsto> PStr ''bad_request'']) () 3
        \<lparr>world = (), trace = []\<rparr> =
      (Inr [''error'' \<mapsto> PStr ''bad_request''],
       \<lparr>world = (), trace = [Call (Inr [''error'' \<mapsto> PStr ''bad_request''])]\<rparr>)
   \<and> is_error [''error'' \<mapsto> PStr ''bad_request'', ''retryable'' \<mapsto> PInt 0]
   \<and> \<not> truthy (PInt 0)
   \<and> execute_with_retry
        (constant_op [''error'' \<mapsto> PStr ''bad_request'', ''retryable'' \<mapsto> PInt 0]) () 3
        \<lparr>world = (), trace = []\<rparr> =
      (Inr [''error'' \<mapsto> PStr ''bad_request'', ''retryable'' \<mapsto> PInt 0],
       \<lparr>world = (),
          trace = [Call (Inr [''error'' \<mapsto> PStr ''bad_request'', ''retryable'' \<mapsto> PInt 0])]\<rparr>)
   \<and> is_error (get_order_status ''ORD-67890'' (Some ''timeout''))
   \<and> truthy (py_get (get_order_status ''ORD-67890'' (Some ''timeout'')) ''retryable'' PNone)
   \<and> fst (execute_with_retry (constant_op (get_order_status ''ORD-67890'' (Some ''timeout'')))
          () 3 \<lparr>world = (), trace = []\<rparr>)
       \<noteq> Inr (get_order_status ''ORD-67890'' (Some ''timeout''))"
proof -
  have b: "(1::int) \<le> 3" by simp
  have c1: "constant_op [''error'' \<mapsto> PStr ''bad_request''] ()
      (world \<lparr>world = (), trace = []\<rparr>) = (Inr [''error'' \<mapsto> PStr ''bad_request''], ())"
    by (simp add: constant_op_def)
  have c2: "constant_op [''error'' \<mapsto> PStr ''bad_request'', ''retryable'' \<mapsto> PInt 0] ()
      (world \<lparr>world = (), trace = []\<rparr>) =
      (Inr [''error'' \<mapsto> PStr ''bad_request'', ''retryable'' \<mapsto> PInt 0], ())"
    by (simp add: constant_op_def)
  have c3: "constant_op (get_order_status ''ORD-67890'' (Some ''timeout'')) ()
      (world \<lparr>world = (), trace = []\<rparr>) =
      (Inr (get_order_status ''ORD-67890'' (Some ''timeout'')), ())"
    by (simp add: constant_op_def)
  have e3: "is_error (get_order_status ''ORD-67890'' (Some ''timeout''))"
    and t3: "truthy (py_get (get_order_status ''ORD-67890'' (Some ''timeout'')) ''retryable'' PNone)"
    by (simp_all add: get_order_status_def is_error_def py_get_def)
  show ?thesis
    using e3 t3
      falsy_retryable_is_final [where func = "constant_op [''error'' \<mapsto> PStr ''bad_request'']"
        and args = "()" and s = "\<lparr>world = (), trace = []\<rparr>", OF b c1]
      falsy_retryable_is_final [where func =
          "constant_op [''error'' \<mapsto> PStr ''bad_request'', ''retryable'' \<mapsto> PInt 0]"
        and args = "()" and s = "\<lparr>world = (), trace = []\<rparr>", OF b c2]
      falsy_retryable_is_final [where func =
          "constant_op (get_order_status ''ORD-67890'' (Some ''timeout''))"
        and args = "()" and s = "\<lparr>world = (), trace = []\<rparr>", OF b c3]
    by (simp add: is_error_def)
qed

text \<open>
  C10. For every \<open>max_retries \<le> 0\<close> the operation is not called and nothing sleeps
  (the world and the trace are unchanged), and the result is the dict with
  \<open>error = max_retries\<close>, the message \<open>Failed after <max_retries> attempts\<close> and
  \<open>retryable = False\<close>.
\<close>

theorem nonpositive_budget_result:
  assumes "max_retries \<le> 0"
  shows "execute_with_retry func args max_retries s =
    (Inr [''error'' \<mapsto> PStr ''max_retries'',
          ''message'' \<mapsto> PStr (''Failed after '' @ str_int max_retries @ '' attempts''),
          ''retryable'' \<mapsto> PBool False], s)"
  using assms
  by (simp add: execute_with_retry_def py_range_nonpos retries_exhausted_def)

text \<open>At \<open>max_retries = 0\<close> and \<open>max_retries = -2\<close>.\<close>

theorem nonpositive_budget_result_witness:
  "(0::int) \<le> 0 \<and> (- 2 :: int) \<le> 0
   \<and> execute_with_retry (call_tool get_order_status) (''ORD-12345'', None) 0
        \<lparr>world = (), trace = []\<rparr> =
      (Inr [''error'' \<mapsto> PStr ''max_retries'',
            ''message'' \<mapsto> PStr ''Failed after 0 attempts'',
            ''retryable'' \<mapsto> PBool False],
       \<lparr>world = (), trace = []\<rparr>)
   \<and> execute_with_retry (call_tool get_order_status) (''ORD-12345'', None) (- 2)
        \<lparr>world = (), trace = []\<rparr> =
      (Inr [''error'' \<mapsto> PStr ''max_retries'',
            ''message'' \<mapsto> PStr ''Failed after -2 attempts'',
            ''retryable'' \<mapsto> PBool False],
       \<lparr>world = (), trace = []\<rparr>)"
proof -
  have h0: "(0::int) \<le> 0" and h2: "(- 2 :: int) \<le> 0" by simp_all
  show ?thesis
    using nonpositive_budget_result [OF h0, of "call_tool get_order_status"
        "(''ORD-12345'', None)" "\<lparr>world = (), trace = []\<rparr>"]
      nonpositive_budget_result [OF h2, of "call_tool get_order_status"
        "(''ORD-12345'', None)" "\<lparr>world = (), trace = []\<rparr>"]
    by (simp add: str_int_def)
qed

end
